theory Spec2Isabelle
  imports Complex_Main "HOL-Library.Sublist" "HOL-Library.Word"
begin

section \<open>Data model\<close>

text \<open>
  The notebook \<^verbatim>\<open>ASD_detector.ipynb\<close> classifies face images with a frozen Xception
  network and explains a prediction with a Grad-CAM heat map. The cells modelled here
  are \<^verbatim>\<open>predict_asd\<close>, \<^verbatim>\<open>get_gradcam_heatmap\<close>, the overlay
  blending, the listing of the test images, \<^verbatim>\<open>get_true_label\<close> and the
  evaluation loop.

  Conventions of the embedding.
  \<^item> A finite float32 value is an exact \<^typ>\<open>real\<close>: rounding is not modelled. The only
    non-finite values that the modelled cells can produce come from numpy's division,
    and they are values of \<open>npfloat\<close>.
  \<^item> An array is a nested list, outermost axis first.
  \<^item> A Python exception is a value \<open>Inl e\<close> of a sum type.
  \<^item> TensorFlow, Keras, PIL and OpenCV are outside the repository. The trained network
    is a record of functions, storage is a function from paths to load results, and the
    colour palette is a parameter.
\<close>

datatype py_error =
    FileNotFoundError
  | UnidentifiedImageError
  | ValueError
  | ZeroDivisionError

type_synonym tensor2 = "real list list"
type_synonym tensor3 = "real list list list"

text \<open>What \<^verbatim>\<open>load_img(path, target_size=...)\<close> gives for every path: the decoded
  and resized image (height, width, channel; values 0..255), or the exception raised.\<close>

type_synonym storage = "string \<Rightarrow> py_error + tensor3"

text \<open>
  The Keras model. \<open>layers\<close> are the layer names in the order of \<^verbatim>\<open>model.layers\<close>;
  \<open>forward\<close> is the sigmoid output for one prepared image; \<open>layer_output\<close> is the
  activation of a named layer for that image; \<open>output_gradient\<close> is the derivative of
  the sigmoid output with respect to that activation, which is what the gradient tape
  differentiates.
\<close>

record keras_model =
  layers :: "string list"
  forward :: "tensor3 \<Rightarrow> real"
  layer_output :: "string \<Rightarrow> tensor3 \<Rightarrow> tensor3"
  output_gradient :: "string \<Rightarrow> tensor3 \<Rightarrow> tensor3"

text \<open>The result of a numpy float division: finite, an infinity, or not-a-number.\<close>

datatype npfloat = Fin real | PInf | NInf | NaN

text \<open>An unsigned 8-bit integer (\<^verbatim>\<open>np.uint8\<close>).\<close>

type_synonym uint8 = "8 word"

section \<open>Single-image prediction\<close>

definition load_img :: "storage \<Rightarrow> string \<Rightarrow> py_error + tensor3" where
  "load_img fs image_path = fs image_path"

text \<open>\<^verbatim>\<open>img_to_array(img) / 255.0\<close>, elementwise.\<close>

definition img_to_array_scaled :: "tensor3 \<Rightarrow> tensor3" where
  "img_to_array_scaled img = map (map (map (\<lambda>v. v / 255))) img"

text \<open>\<^verbatim>\<open>model.predict(batch)\<close>: one row with one sigmoid output per image.\<close>

definition model_predict :: "keras_model \<Rightarrow> tensor3 list \<Rightarrow> real list list" where
  "model_predict model batch = map (\<lambda>x. [forward model x]) batch"

text \<open>
  \<^verbatim>\<open>
  def predict_asd(image_path, model):
      img = image.load_img(image_path, target_size=IMG_SIZE)
      img_array = image.img_to_array(img) / 255.0
      img_array = np.expand_dims(img_array, axis=0)
      prediction = model.predict(img_array)[0][0]
      label = 'Autistic' if prediction > 0.5 else 'Non_Autistic'
      confidence = prediction if prediction > 0.5 else 1 - prediction
      return label, confidence
  \<close>
\<close>

definition predict_asd :: "storage \<Rightarrow> keras_model \<Rightarrow> string \<Rightarrow> py_error + (string \<times> real)" where
  "predict_asd fs model image_path =
     (case load_img fs image_path of
        Inl e \<Rightarrow> Inl e
      | Inr img \<Rightarrow>
          (let img_array = img_to_array_scaled img;
               img_batch = [img_array];
               prediction = hd (hd (model_predict model img_batch));
               label = (if prediction > 0.5 then ''Autistic'' else ''Non_Autistic'');
               confidence = (if prediction > 0.5 then prediction else 1 - prediction)
           in Inr (label, confidence)))"

section \<open>Grad-CAM\<close>

subsection \<open>The target score\<close>

text \<open>\<^verbatim>\<open>predicted_class = tf.cast(predictions > 0.5, "float32")\<close>\<close>

definition predicted_class :: "real \<Rightarrow> real" where
  "predicted_class predictions = (if predictions > 0.5 then 1 else 0)"

text \<open>
  \<^verbatim>\<open>loss = predictions[:, 0] if predicted_class[0] > 0.5 else 1 - predictions[:, 0]\<close>

  The tape differentiates the expression chosen, so the choice is kept as a value:
  \<open>Score\<close> stands for \<open>p\<close> and \<open>OneMinusScore\<close> for \<open>1 - p\<close>.
\<close>

datatype loss_expr = Score | OneMinusScore

definition select_loss :: "real \<Rightarrow> loss_expr" where
  "select_loss predictions = (if predicted_class predictions > 0.5 then Score else OneMinusScore)"

fun loss_value :: "loss_expr \<Rightarrow> real \<Rightarrow> real" where
  "loss_value Score p = p"
| "loss_value OneMinusScore p = 1 - p"

text \<open>
  \<^verbatim>\<open>tape.gradient(loss, conv_outputs)[0]\<close>, given the derivative \<open>dp\<close> of the sigmoid
  output with respect to the activation: the derivative of \<open>p\<close> is \<open>dp\<close>, the derivative
  of \<open>1 - p\<close> is \<open>- dp\<close>.
\<close>

fun tape_gradient :: "loss_expr \<Rightarrow> tensor3 \<Rightarrow> tensor3" where
  "tape_gradient Score dp = dp"
| "tape_gradient OneMinusScore dp = map (map (map uminus)) dp"

subsection \<open>Channel weights and the weighted activation\<close>

text \<open>The size of the last axis of a height x width x channel array, read off its
  first position. An array without positions has no entry to reduce, and
  \<^verbatim>\<open>np.max\<close> raises on the map computed from it.\<close>

definition channels :: "tensor3 \<Rightarrow> nat" where
  "channels t = (case concat t of [] \<Rightarrow> 0 | px # _ \<Rightarrow> length px)"

text \<open>An array of \<open>H\<close> rows, \<open>W\<close> columns and \<open>C\<close> channels.\<close>

definition has_shape :: "nat \<Rightarrow> nat \<Rightarrow> nat \<Rightarrow> tensor3 \<Rightarrow> bool" where
  "has_shape H W C t =
     (length t = H \<and> list_all (\<lambda>row. length row = W \<and> list_all (\<lambda>px. length px = C) row) t)"

text \<open>\<^verbatim>\<open>tf.reduce_mean\<close> along one axis: the sum over the count. The axes
  reduced here are never empty for the output of a convolution layer; the theorems
  state this as positive dimensions.\<close>

definition reduce_mean :: "real list \<Rightarrow> real" where
  "reduce_mean xs = sum_list xs / real (length xs)"

text \<open>\<^verbatim>\<open>pooled_grads = tf.reduce_mean(grads, axis=(0, 1))\<close>: for every channel, the
  mean over all spatial positions.\<close>

definition pooled_grads :: "tensor3 \<Rightarrow> real list" where
  "pooled_grads grads = map (\<lambda>k. reduce_mean (map (\<lambda>px. px ! k) (concat grads))) [0..<channels grads]"

text \<open>\<^verbatim>\<open>tf.multiply(conv_outputs, pooled_grads)\<close>: the weight vector is broadcast along
  the last axis.\<close>

definition tf_multiply :: "tensor3 \<Rightarrow> real list \<Rightarrow> tensor3" where
  "tf_multiply conv_outputs w = map (map (\<lambda>px. map2 (*) px w)) conv_outputs"

text \<open>\<^verbatim>\<open>heatmap = tf.reduce_mean(tf.multiply(conv_outputs, pooled_grads), axis=-1)\<close>\<close>

definition weighted_activation :: "tensor3 \<Rightarrow> real list \<Rightarrow> tensor2" where
  "weighted_activation conv_outputs w = map (map reduce_mean) (tf_multiply conv_outputs w)"

text \<open>The reading of the specification: at every position, the dot product of the
  activation's channel vector with the weight vector.\<close>

definition dot_product :: "real list \<Rightarrow> real list \<Rightarrow> real" where
  "dot_product xs ys = sum_list (map2 (*) xs ys)"

definition spec_raw_saliency :: "tensor3 \<Rightarrow> real list \<Rightarrow> tensor2" where
  "spec_raw_saliency conv_outputs w = map (map (\<lambda>px. dot_product px w)) conv_outputs"

subsection \<open>Clipping and normalisation\<close>

text \<open>\<^verbatim>\<open>heatmap = np.maximum(heatmap, 0)\<close>\<close>

definition np_maximum0 :: "tensor2 \<Rightarrow> tensor2" where
  "np_maximum0 heatmap = map (map (\<lambda>v. max v 0)) heatmap"

text \<open>\<^verbatim>\<open>np.max(heatmap)\<close>: the largest entry; numpy raises ValueError on an array
  without entries.\<close>

definition np_max :: "tensor2 \<Rightarrow> py_error + real" where
  "np_max heatmap = (case concat heatmap of [] \<Rightarrow> Inl ValueError | v # vs \<Rightarrow> Inr (fold max vs v))"

text \<open>numpy's float division: a zero divisor raises nothing; it gives not-a-number
  for \<open>0 / 0\<close> and a signed infinity otherwise.\<close>

definition np_divide :: "real \<Rightarrow> real \<Rightarrow> npfloat" where
  "np_divide x y =
     (if y = 0 then (if x = 0 then NaN else if x > 0 then PInf else NInf) else Fin (x / y))"

text \<open>\<^verbatim>\<open>heatmap = heatmap / np.max(heatmap)  # Normalize to [0, 1]\<close>\<close>

definition normalize_heatmap :: "tensor2 \<Rightarrow> py_error + npfloat list list" where
  "normalize_heatmap heatmap =
     (case np_max heatmap of
        Inl e \<Rightarrow> Inl e
      | Inr m \<Rightarrow> Inr (map (map (\<lambda>v. np_divide v m)) heatmap))"

subsection \<open>Resizing and the 8-bit map\<close>

text \<open>
  \<^verbatim>\<open>cv2.resize(heatmap, (width, height))\<close> is OpenCV's and is a parameter: a function
  from a float map and the requested size, width first, to the resized float map.
\<close>

type_synonym resize = "npfloat list list \<Rightarrow> nat \<times> nat \<Rightarrow> npfloat list list"

text \<open>\<^verbatim>\<open>255 * heatmap\<close> on one value.\<close>

definition times255 :: "npfloat \<Rightarrow> npfloat" where
  "times255 v = (case v of Fin x \<Rightarrow> Fin (255 * x) | PInf \<Rightarrow> PInf | NInf \<Rightarrow> NInf | NaN \<Rightarrow> NaN)"

text \<open>The conversion of a finite float to \<^verbatim>\<open>np.uint8\<close>: it drops the fraction and
  keeps the low eight bits.\<close>

definition astype_uint8 :: "real \<Rightarrow> uint8" where
  "astype_uint8 x = word_of_int (if 0 \<le> x then \<lfloor>x\<rfloor> else \<lceil>x\<rceil>)"

text \<open>
  \<^verbatim>\<open>np.uint8(...)\<close> on one value of the float map. The conversion of a value that is
  not finite is undefined in C; numpy on x86-64 gives 0 for it, with a RuntimeWarning
  and no exception, and that is the value taken here.
\<close>

definition np_uint8 :: "npfloat \<Rightarrow> uint8" where
  "np_uint8 v = (case v of Fin x \<Rightarrow> astype_uint8 x | PInf \<Rightarrow> 0 | NInf \<Rightarrow> 0 | NaN \<Rightarrow> 0)"

subsection \<open>The function\<close>

text \<open>\<^verbatim>\<open>model.get_layer(name)\<close> of Keras: the first layer of \<^verbatim>\<open>model.layers\<close> whose
  name equals \<open>name\<close>; ValueError when there is none. A layer is identified by its name.\<close>

definition get_layer :: "keras_model \<Rightarrow> string \<Rightarrow> py_error + string" where
  "get_layer model name =
     (case find (\<lambda>layer. layer = name) (layers model) of
        None \<Rightarrow> Inl ValueError
      | Some layer \<Rightarrow> Inr layer)"

text \<open>What a call has done, in order: the read of the image from storage, the lookup
  of the layer, and the evaluation of the two-output model under the gradient tape.\<close>

datatype event = LoadImg string | GetLayer string | RunGradModel string

text \<open>
  \<^verbatim>\<open>
  def get_gradcam_heatmap(model, img_path, img_size=(299, 299),
                          last_conv_layer_name="block14_sepconv2_act"):
      img = tf.keras.preprocessing.image.load_img(img_path, target_size=img_size)
      img_array = tf.keras.preprocessing.image.img_to_array(img)
      img_array = np.expand_dims(img_array, axis=0)
      img_array = img_array / 255.0
      img_tensor = tf.convert_to_tensor(img_array, dtype=tf.float32)
      last_conv_layer = model.get_layer(last_conv_layer_name)
      grad_model = tf.keras.models.Model(
          [model.inputs], [last_conv_layer.output, model.output])
      with tf.GradientTape() as tape:
          tape.watch(img_tensor)
          conv_outputs, predictions = grad_model([img_tensor])
          predicted_class = tf.cast(predictions > 0.5, "float32")
          loss = predictions[:, 0] if predicted_class[0] > 0.5 else 1 - predictions[:, 0]
      grads = tape.gradient(loss, conv_outputs)[0]
      pooled_grads = tf.reduce_mean(grads, axis=(0, 1))
      conv_outputs = conv_outputs[0]
      heatmap = tf.reduce_mean(tf.multiply(conv_outputs, pooled_grads), axis=-1)
      heatmap = np.maximum(heatmap, 0)
      heatmap = heatmap / np.max(heatmap)  # Normalize to [0, 1]
      heatmap = cv2.resize(heatmap, (img_size[1], img_size[0]))
      heatmap = np.uint8(255 * heatmap)
      return heatmap, img
  \<close>
  \<open>img_size\<close> is (height, width), and storage gives the image already at that size.
  The first component of the result is the list of events up to the return or the
  exception; the second is the exception or the returned pair.
\<close>

definition get_gradcam_heatmap ::
  "storage \<Rightarrow> resize \<Rightarrow> keras_model \<Rightarrow> string \<Rightarrow> nat \<times> nat \<Rightarrow> string
     \<Rightarrow> event list \<times> (py_error + (uint8 list list \<times> tensor3))" where
  "get_gradcam_heatmap fs cv2_resize model img_path img_size last_conv_layer_name =
     (case load_img fs img_path of
        Inl e \<Rightarrow> ([LoadImg img_path], Inl e)
      | Inr img \<Rightarrow>
          (let img_tensor = img_to_array_scaled img in
           case get_layer model last_conv_layer_name of
             Inl e \<Rightarrow> ([LoadImg img_path, GetLayer last_conv_layer_name], Inl e)
           | Inr last_conv_layer \<Rightarrow>
               (let trace = [LoadImg img_path, GetLayer last_conv_layer_name, RunGradModel img_path];
                    conv_outputs = layer_output model last_conv_layer img_tensor;
                    predictions = forward model img_tensor;
                    loss = select_loss predictions;
                    grads = tape_gradient loss (output_gradient model last_conv_layer img_tensor);
                    heatmap = weighted_activation conv_outputs (pooled_grads grads);
                    heatmap = np_maximum0 heatmap
                in case normalize_heatmap heatmap of
                     Inl e \<Rightarrow> (trace, Inl e)
                   | Inr heatmap \<Rightarrow>
                       (let heatmap = cv2_resize heatmap (snd img_size, fst img_size);
                            heatmap = map (map (\<lambda>v. np_uint8 (times255 v))) heatmap
                        in (trace, Inr (heatmap, img))))))"

section \<open>Rendering: the overlay\<close>

text \<open>An 8-bit colour image, as \<^verbatim>\<open>cv2.applyColorMap\<close> produces it.\<close>

type_synonym image8 = "uint8 list list list"

text \<open>\<^verbatim>\<open>cv2.applyColorMap(heatmap, cv2.COLORMAP_JET)\<close> looks every grey value up in a
  palette of 256 blue-green-red triples; the palette is OpenCV's and is a parameter.
  \<^verbatim>\<open>cv2.cvtColor(heatmap, cv2.COLOR_BGR2RGB)\<close> reverses every triple.\<close>

definition applyColorMap :: "(uint8 \<Rightarrow> uint8 list) \<Rightarrow> uint8 list list \<Rightarrow> image8" where
  "applyColorMap palette heatmap = map (map palette) heatmap"

definition cvtColor_BGR2RGB :: "image8 \<Rightarrow> image8" where
  "cvtColor_BGR2RGB heatmap = map (map rev) heatmap"

text \<open>\<^verbatim>\<open>np.clip(x, 0, 255)\<close> on one value; \<^verbatim>\<open>.astype(np.uint8)\<close> is
  \<open>astype_uint8\<close> above.\<close>

definition np_clip :: "real \<Rightarrow> real \<Rightarrow> real \<Rightarrow> real" where
  "np_clip x lo hi = min (max x lo) hi"

text \<open>
  One channel of one pixel of
  \<^verbatim>\<open>
  heatmap = np.float32(heatmap) / 255
  alpha = 0.4
  overlay = (1 - alpha) * original_img + alpha * heatmap * 255
  overlay = np.clip(overlay, 0, 255).astype(np.uint8)
  \<close>
  where \<open>h\<close> is the value of the colour-mapped heat map and \<open>orig\<close> the value of the
  original image.
\<close>

definition overlay_value :: "real \<Rightarrow> uint8 \<Rightarrow> uint8" where
  "overlay_value orig h =
     (let heatmap = real (unat h) / 255;
          alpha = 0.4;
          overlay = (1 - alpha) * orig + alpha * heatmap * 255
      in astype_uint8 (np_clip overlay 0 255))"

text \<open>The same on whole arrays of one shape.\<close>

definition overlay :: "tensor3 \<Rightarrow> image8 \<Rightarrow> image8" where
  "overlay original_img heatmap = map2 (map2 (map2 overlay_value)) original_img heatmap"

section \<open>The test images and their labels\<close>

text \<open>Python's \<^verbatim>\<open>needle in hay\<close> on strings: \<open>needle\<close> occurs in \<open>hay\<close> as a contiguous
  piece.\<close>

definition str_in :: "string \<Rightarrow> string \<Rightarrow> bool" where
  "str_in needle hay = sublist needle hay"

text \<open>
  \<^verbatim>\<open>os.path.join(a, b)\<close> for a relative first part, with the separator of the
  platform as a parameter (the notebook ran on Windows, where it is the backslash): a
  second part that starts at the root replaces the first, otherwise the parts are put
  together with one separator between them.
\<close>

definition os_path_join :: "char \<Rightarrow> string \<Rightarrow> string \<Rightarrow> string" where
  "os_path_join sep a b =
     (if b \<noteq> [] \<and> hd b = sep then b
      else if a = [] \<or> last a = sep then a @ b
      else a @ [sep] @ b)"

text \<open>\<^verbatim>\<open>fname.endswith(('.jpg', '.jpeg', '.png'))\<close>\<close>

definition is_image_name :: "string \<Rightarrow> bool" where
  "is_image_name fname = (suffix ''.jpg'' fname \<or> suffix ''.jpeg'' fname \<or> suffix ''.png'' fname)"

text \<open>
  \<^verbatim>\<open>
  test_dir = 'data/test'
  autistic_dir = os.path.join(test_dir, 'Autistic')
  non_autistic_dir = os.path.join(test_dir, 'Non_Autistic')
  autistic_images = [os.path.join(autistic_dir, fname)
                     for fname in os.listdir(autistic_dir)[45:52]
                     if fname.endswith(('.jpg', '.jpeg', '.png'))]
  non_autistic_images = [... the same with non_autistic_dir ...]
  test_images = autistic_images + non_autistic_images
  \<close>
  The two directory listings are parameters.
\<close>

definition test_dir :: string where
  "test_dir = ''data/test''"

definition autistic_dir :: "char \<Rightarrow> string" where
  "autistic_dir sep = os_path_join sep test_dir ''Autistic''"

definition non_autistic_dir :: "char \<Rightarrow> string" where
  "non_autistic_dir sep = os_path_join sep test_dir ''Non_Autistic''"

definition listed_images :: "char \<Rightarrow> string \<Rightarrow> string list \<Rightarrow> string list" where
  "listed_images sep dir listing =
     map (os_path_join sep dir) (filter is_image_name (take 7 (drop 45 listing)))"

definition test_images :: "char \<Rightarrow> string list \<Rightarrow> string list \<Rightarrow> string list" where
  "test_images sep autistic_listing non_autistic_listing =
     listed_images sep (autistic_dir sep) autistic_listing
     @ listed_images sep (non_autistic_dir sep) non_autistic_listing"

text \<open>
  \<^verbatim>\<open>
  def get_true_label(img_path):
      if 'Autistics' in img_path:
          return 'Autistic'
      elif 'Non_Autistics' in img_path:
          return 'Non_Autistic'
      else:
          return None
  \<close>
\<close>

definition get_true_label :: "string \<Rightarrow> string option" where
  "get_true_label img_path =
     (if str_in ''Autistics'' img_path then Some ''Autistic''
      else if str_in ''Non_Autistics'' img_path then Some ''Non_Autistic''
      else None)"

section \<open>The evaluation loop\<close>

text \<open>What one pass of the loop prints: the path, the true label, the predicted
  label, the confidence and whether the two labels agree.\<close>

record evaluation_record =
  rec_path :: string
  rec_true_label :: "string option"
  rec_predicted_label :: string
  rec_confidence :: real
  rec_correct :: bool

text \<open>
  \<^verbatim>\<open>
  correct_predictions = 0
  total_images = len(test_images)
  for img_path in test_images:
      true_label = get_true_label(img_path)
      predicted_label, confidence = predict_asd(img_path, model)
      is_correct = (true_label == predicted_label)
      if is_correct:
          correct_predictions += 1
      print(...)
  subset_accuracy = (correct_predictions / total_images) * 100
  \<close>
  The loop carries the count and what has been printed. There is no handler around the
  call of \<^verbatim>\<open>predict_asd\<close>: an exception ends the loop, and what was printed before
  stays printed.
\<close>

fun evaluation_loop ::
  "storage \<Rightarrow> keras_model \<Rightarrow> string list \<Rightarrow> nat \<Rightarrow> evaluation_record list
     \<Rightarrow> evaluation_record list \<times> (py_error + nat)" where
  "evaluation_loop fs model [] correct_predictions printed = (printed, Inr correct_predictions)"
| "evaluation_loop fs model (img_path # rest) correct_predictions printed =
     (let true_label = get_true_label img_path in
      case predict_asd fs model img_path of
        Inl e \<Rightarrow> (printed, Inl e)
      | Inr (predicted_label, confidence) \<Rightarrow>
          (let is_correct = (true_label = Some predicted_label);
               line = \<lparr>rec_path = img_path, rec_true_label = true_label,
                       rec_predicted_label = predicted_label, rec_confidence = confidence,
                       rec_correct = is_correct\<rparr>
           in evaluation_loop fs model rest
                (if is_correct then correct_predictions + 1 else correct_predictions)
                (printed @ [line])))"

text \<open>Python's \<^verbatim>\<open>/\<close> on integers raises ZeroDivisionError for a zero divisor.\<close>

definition py_truediv :: "nat \<Rightarrow> nat \<Rightarrow> py_error + real" where
  "py_truediv a b = (if b = 0 then Inl ZeroDivisionError else Inr (real a / real b))"

definition evaluate ::
  "storage \<Rightarrow> keras_model \<Rightarrow> string list \<Rightarrow> evaluation_record list \<times> (py_error + real)" where
  "evaluate fs model imgs =
     (let total_images = length imgs in
      case evaluation_loop fs model imgs 0 [] of
        (printed, Inl e) \<Rightarrow> (printed, Inl e)
      | (printed, Inr correct_predictions) \<Rightarrow>
          (case py_truediv correct_predictions total_images of
             Inl e \<Rightarrow> (printed, Inl e)
           | Inr q \<Rightarrow> (printed, Inr (q * 100))))"

text \<open>The cell that runs Grad-CAM over the test images calls
  \<^verbatim>\<open>get_gradcam_heatmap\<close> for one image after the other, again without a handler: the
  first exception ends it. The result is the events of all calls made and, when no call
  failed, the maps.\<close>

fun gradcam_loop ::
  "storage \<Rightarrow> resize \<Rightarrow> keras_model \<Rightarrow> nat \<times> nat \<Rightarrow> string \<Rightarrow> string list
     \<Rightarrow> event list \<times> (py_error + (uint8 list list \<times> tensor3) list)" where
  "gradcam_loop fs cv2_resize model img_size layer [] = ([], Inr [])"
| "gradcam_loop fs cv2_resize model img_size layer (img_path # rest) =
     (case get_gradcam_heatmap fs cv2_resize model img_path img_size layer of
        (tr, Inl e) \<Rightarrow> (tr, Inl e)
      | (tr, Inr r) \<Rightarrow>
          (case gradcam_loop fs cv2_resize model img_size layer rest of
             (tr', Inl e) \<Rightarrow> (tr @ tr', Inl e)
           | (tr', Inr rs) \<Rightarrow> (tr @ tr', Inr (r # rs))))"

text \<open>Concrete inputs for the examples: a storage that holds a 1 x 1 image with three
  channels under \<^verbatim>\<open>a.jpg\<close>, a 2 x 2 image under \<^verbatim>\<open>b.jpg\<close> and nothing else; a
  resize that repeats the nearest entry of the source; and a network with two layers
  whose feature map and gradient are given.\<close>

definition example_storage :: storage where
  "example_storage p =
     (if p = ''a.jpg'' then Inr [[[255, 0, 51]]]
      else if p = ''b.jpg'' then Inr [[[255, 0, 51], [0, 0, 0]], [[10, 20, 30], [40, 50, 60]]]
      else Inl FileNotFoundError)"

definition example_resize :: resize where
  "example_resize src dsize =
     (case dsize of (w, h) \<Rightarrow>
        map (\<lambda>i. map (\<lambda>j. src ! (i * length src div h) ! (j * length (src ! (i * length src div h)) div w))
                     [0..<w])
          [0..<h])"

definition example_model :: "real \<Rightarrow> tensor3 \<Rightarrow> tensor3 \<Rightarrow> keras_model" where
  "example_model p act dp =
     \<lparr>layers = [''input_1'', ''block14_sepconv2_act''],
      forward = (\<lambda>_. p),
      layer_output = (\<lambda>_ _. act),
      output_gradient = (\<lambda>_ _. dp)\<rparr>"

section \<open>Single-image prediction: label and confidence\<close>

lemma predict_asd_loaded:
  "load_img fs image_path = Inr img \<Longrightarrow>
   predict_asd fs model image_path =
     Inr (if forward model (img_to_array_scaled img) > 0.5 then ''Autistic'' else ''Non_Autistic'',
          if forward model (img_to_array_scaled img) > 0.5
          then forward model (img_to_array_scaled img)
          else 1 - forward model (img_to_array_scaled img))"
  by (simp add: predict_asd_def model_predict_def Let_def)

lemma predict_asd_failed: "load_img fs image_path = Inl e \<Longrightarrow> predict_asd fs model image_path = Inl e"
  by (simp add: predict_asd_def)

text \<open>
  C5. When the image loads and the network's output for it is a probability \<open>p\<close> in
  \<open>[0, 1]\<close>, \<^verbatim>\<open>predict_asd\<close> returns the label \<^verbatim>\<open>Autistic\<close> if \<open>p > 0.5\<close> and
  \<^verbatim>\<open>Non_Autistic\<close> otherwise, with the confidence \<open>max p (1 - p)\<close>, which lies in
  \<open>[0.5, 1]\<close>.
\<close>

theorem predict_asd_label_confidence:
  assumes "load_img fs image_path = Inr img"
    and "forward model (img_to_array_scaled img) = p"
    and "0 \<le> p" and "p \<le> 1"
  shows "predict_asd fs model image_path =
           Inr (if p > 0.5 then ''Autistic'' else ''Non_Autistic'', max p (1 - p))
         \<and> 0.5 \<le> max p (1 - p) \<and> max p (1 - p) \<le> 1"
  using assms by (auto simp: predict_asd_loaded max_def)

theorem predict_asd_label_confidence_witness:
  "load_img example_storage ''a.jpg'' = Inr [[[255, 0, 51]]]
   \<and> forward (example_model (9/10) [] []) (img_to_array_scaled [[[255, 0, 51]]]) = 9/10
   \<and> predict_asd example_storage (example_model (9/10) [] []) ''a.jpg'' = Inr (''Autistic'', 9/10)"
  using predict_asd_label_confidence [of example_storage "''a.jpg''" "[[[255, 0, 51]]]"
      "example_model (9/10) [] []" "9/10"]
  by (simp add: load_img_def example_storage_def example_model_def)

section \<open>Grad-CAM: the target score\<close>

lemma select_loss_eq: "select_loss p = (if p > 0.5 then Score else OneMinusScore)"
  by (simp add: select_loss_def predicted_class_def)

lemma get_gradcam_heatmap_ok:
  assumes "load_img fs img_path = Inr img" and "get_layer model name = Inr l"
  shows "get_gradcam_heatmap fs cv2_resize model img_path img_size name =
     ([LoadImg img_path, GetLayer name, RunGradModel img_path],
      case normalize_heatmap (np_maximum0 (weighted_activation
             (layer_output model l (img_to_array_scaled img))
             (pooled_grads (tape_gradient (select_loss (forward model (img_to_array_scaled img)))
                (output_gradient model l (img_to_array_scaled img)))))) of
        Inl e \<Rightarrow> Inl e
      | Inr h \<Rightarrow>
          Inr (map (map (\<lambda>v. np_uint8 (times255 v))) (cv2_resize h (snd img_size, fst img_size)),
               img))"
  using assms by (simp add: get_gradcam_heatmap_def Let_def split: sum.splits)

text \<open>
  C1. The score that \<^verbatim>\<open>get_gradcam_heatmap\<close> differentiates is \<open>p\<close> when \<open>p > 0.5\<close>
  and \<open>1 - p\<close> otherwise. It is the larger of the two class scores, that is the score
  of the class that the threshold predicts, and the gradient handed on is that of the
  chosen score: the derivative of \<open>p\<close> in the first case, its negation in the second.
  The heat map that a call returns is computed from that gradient.
\<close>

theorem gradcam_target_score:
  "loss_value (select_loss p) p = (if p > 0.5 then p else 1 - p)
   \<and> loss_value (select_loss p) p = max p (1 - p)
   \<and> tape_gradient (select_loss p) dp = (if p > 0.5 then dp else map (map (map uminus)) dp)
   \<and> (select_loss p = Score) = (p > 0.5)
   \<and> (load_img fs img_path = Inr img \<and> get_layer model name = Inr l
        \<and> p = forward model (img_to_array_scaled img)
        \<and> dp = output_gradient model l (img_to_array_scaled img) \<longrightarrow>
        snd (get_gradcam_heatmap fs cv2_resize model img_path img_size name)
          = (case normalize_heatmap (np_maximum0 (weighted_activation
                    (layer_output model l (img_to_array_scaled img))
                    (pooled_grads (if p > 0.5 then dp else map (map (map uminus)) dp)))) of
               Inl e \<Rightarrow> Inl e
             | Inr heatmap \<Rightarrow>
                 Inr (map (map (\<lambda>v. np_uint8 (times255 v)))
                        (cv2_resize heatmap (snd img_size, fst img_size)), img)))"
proof -
  have t: "tape_gradient (select_loss p) dp = (if p > 0.5 then dp else map (map (map uminus)) dp)"
    by (simp add: select_loss_eq)
  have "snd (get_gradcam_heatmap fs cv2_resize model img_path img_size name)
          = (case normalize_heatmap (np_maximum0 (weighted_activation
                    (layer_output model l (img_to_array_scaled img))
                    (pooled_grads (if p > 0.5 then dp else map (map (map uminus)) dp)))) of
               Inl e \<Rightarrow> Inl e
             | Inr heatmap \<Rightarrow>
                 Inr (map (map (\<lambda>v. np_uint8 (times255 v)))
                        (cv2_resize heatmap (snd img_size, fst img_size)), img))"
    if "load_img fs img_path = Inr img \<and> get_layer model name = Inr l
        \<and> p = forward model (img_to_array_scaled img)
        \<and> dp = output_gradient model l (img_to_array_scaled img)"
    using that t by (simp add: get_gradcam_heatmap_ok)
  then show ?thesis by (simp add: select_loss_eq max_def)
qed

theorem gradcam_target_score_witness:
  "loss_value (select_loss (3/10)) (3/10) = 7/10
   \<and> tape_gradient (select_loss (3/10)) [[[-1, -1]]] = [[[1, 1]]]
   \<and> loss_value (select_loss (9/10)) (9/10) = 9/10
   \<and> load_img example_storage ''a.jpg'' = Inr [[[255, 0, 51]]]
   \<and> get_layer (example_model (3/10) [[[1, 2]]] [[[-1, -1]]]) ''block14_sepconv2_act''
       = Inr ''block14_sepconv2_act''
   \<and> snd (get_gradcam_heatmap example_storage example_resize
            (example_model (3/10) [[[1, 2]]] [[[-1, -1]]]) ''a.jpg'' (1, 1) ''block14_sepconv2_act'')
       = Inr ([[255]], [[[255, 0, 51]]])"
  using gradcam_target_score [of "3/10" "[[[-1, -1]]]" example_storage "''a.jpg''" "[[[255, 0, 51]]]"
      "example_model (3/10) [[[1, 2]]] [[[-1, -1]]]" "''block14_sepconv2_act''" "''block14_sepconv2_act''"
      example_resize "(1, 1)"]
    gradcam_target_score [of "9/10" "[]"]
  by (simp add: load_img_def example_storage_def example_model_def get_layer_def
      pooled_grads_def channels_def reduce_mean_def weighted_activation_def tf_multiply_def
      np_maximum0_def normalize_heatmap_def np_max_def np_divide_def example_resize_def
      times255_def np_uint8_def astype_uint8_def)

section \<open>Grad-CAM: channel weights and the weighted activation\<close>

lemma has_shape_row: "has_shape H W C t \<Longrightarrow> i < H \<Longrightarrow> length (t ! i) = W"
  by (auto simp: has_shape_def list_all_length)

lemma has_shape_px: "has_shape H W C t \<Longrightarrow> i < H \<Longrightarrow> j < W \<Longrightarrow> length (t ! i ! j) = C"
  by (auto simp: has_shape_def list_all_length)

lemma length_concat_rows:
  "list_all (\<lambda>row. length row = W) t \<Longrightarrow> length (concat t) = length t * W"
  by (induction t) auto

lemma has_shape_length_concat: "has_shape H W C t \<Longrightarrow> length (concat t) = H * W"
  using length_concat_rows [of W t] by (auto simp: has_shape_def list_all_iff)

lemma has_shape_channels:
  assumes "has_shape H W C t" "0 < H" "0 < W"
  shows "channels t = C"
proof -
  from assms(1) have "length (concat t) = H * W" by (rule has_shape_length_concat)
  with assms(2,3) have "0 < length (concat t)" by simp
  then obtain px rest where c: "concat t = px # rest" by (cases "concat t") simp_all
  then have "px \<in> set (concat t)" by simp
  then obtain row where "row \<in> set t" "px \<in> set row" by auto
  with assms(1) have "length px = C" by (auto simp: has_shape_def list_all_iff)
  with c show ?thesis by (simp add: channels_def)
qed

lemma sum_list_concat_map:
  fixes f :: "'a \<Rightarrow> real"
  shows "sum_list (map f (concat t)) = sum_list (map (\<lambda>row. sum_list (map f row)) t)"
  by (induction t) auto

lemma sum_list_map_nth:
  fixes g :: "'a \<Rightarrow> real"
  shows "sum_list (map g xs) = (\<Sum>i<length xs. g (xs ! i))"
proof -
  have "sum_list (map g xs) = (\<Sum>i = 0..<length xs. map g xs ! i)"
    using sum_list_sum_nth [of "map g xs"] by simp
  also have "\<dots> = (\<Sum>i = 0..<length xs. g (xs ! i))"
    by (rule sum.cong) auto
  finally show ?thesis by (simp add: lessThan_atLeast0)
qed

lemma sum_over_positions:
  fixes f :: "real list \<Rightarrow> real"
  assumes "has_shape H W C t"
  shows "sum_list (map f (concat t)) = (\<Sum>i<H. \<Sum>j<W. f (t ! i ! j))"
proof -
  have "sum_list (map f (concat t)) = sum_list (map (\<lambda>row. sum_list (map f row)) t)"
    by (rule sum_list_concat_map)
  also have "\<dots> = (\<Sum>i<length t. sum_list (map f (t ! i)))"
    by (rule sum_list_map_nth)
  also have "\<dots> = (\<Sum>i<H. \<Sum>j<W. f (t ! i ! j))"
  proof (rule sum.cong)
    show "{..<length t} = {..<H}" using assms by (simp add: has_shape_def)
  next
    fix i assume "i \<in> {..<H}"
    then have "length (t ! i) = W" using assms has_shape_row by auto
    then show "sum_list (map f (t ! i)) = (\<Sum>j<W. f (t ! i ! j))"
      by (simp add: sum_list_map_nth)
  qed
  finally show ?thesis .
qed

lemma pooled_grads_nth:
  assumes "has_shape H W C grads" "0 < H" "0 < W" "k < C"
  shows "pooled_grads grads ! k = (\<Sum>i<H. \<Sum>j<W. grads ! i ! j ! k) / real (H * W)"
  using assms
  by (simp add: pooled_grads_def has_shape_channels [OF assms(1-3)] reduce_mean_def
      has_shape_length_concat [OF assms(1)] sum_over_positions [OF assms(1)])

lemma length_pooled_grads:
  "has_shape H W C grads \<Longrightarrow> 0 < H \<Longrightarrow> 0 < W \<Longrightarrow> length (pooled_grads grads) = C"
  by (simp add: pooled_grads_def has_shape_channels)

lemma weighted_activation_nth:
  assumes "has_shape H W C conv_outputs" "length w = C" "i < H" "j < W"
  shows "weighted_activation conv_outputs w ! i ! j = dot_product (conv_outputs ! i ! j) w / real C"
proof -
  have li: "i < length conv_outputs" using assms by (simp add: has_shape_def)
  have lj: "j < length (conv_outputs ! i)" using assms has_shape_row by auto
  have lc: "length (conv_outputs ! i ! j) = C" using assms has_shape_px by auto
  show ?thesis using li lj lc assms(2)
    by (simp add: weighted_activation_def tf_multiply_def reduce_mean_def dot_product_def)
qed

lemma weighted_activation_dims:
  assumes "has_shape H W C conv_outputs"
  shows "length (weighted_activation conv_outputs w) = H
     \<and> (\<forall>i<H. length (weighted_activation conv_outputs w ! i) = W)"
  using assms has_shape_row
  by (auto simp: weighted_activation_def tf_multiply_def has_shape_def)

text \<open>
  C2, as amended. For a gradient field and a feature map of \<open>H\<close> rows, \<open>W\<close> columns and
  \<open>C\<close> channels (all positive), there is one weight per channel, the weight of channel
  \<open>k\<close> is the mean of the gradient field over the two spatial axes only, and the raw
  saliency at a position is the mean over the channels of the products of the feature
  map's channel values with the weights: the dot product divided by the number of
  channels, not the dot product itself.
\<close>

theorem channel_weights_and_weighted_mean:
  assumes "has_shape H W C grads" and "has_shape H W C conv_outputs"
    and "0 < H" and "0 < W" and "0 < C"
  shows "length (pooled_grads grads) = C
     \<and> (\<forall>k<C. pooled_grads grads ! k = (\<Sum>i<H. \<Sum>j<W. grads ! i ! j ! k) / real (H * W))
     \<and> (\<forall>i<H. \<forall>j<W. weighted_activation conv_outputs (pooled_grads grads) ! i ! j
            = dot_product (conv_outputs ! i ! j) (pooled_grads grads) / real C)"
proof -
  have len: "length (pooled_grads grads) = C"
    using assms by (simp add: length_pooled_grads)
  moreover have "\<forall>k<C. pooled_grads grads ! k = (\<Sum>i<H. \<Sum>j<W. grads ! i ! j ! k) / real (H * W)"
    using assms pooled_grads_nth by blast
  moreover have "\<forall>i<H. \<forall>j<W. weighted_activation conv_outputs (pooled_grads grads) ! i ! j
      = dot_product (conv_outputs ! i ! j) (pooled_grads grads) / real C"
    using weighted_activation_nth [OF assms(2) len] by blast
  ultimately show ?thesis by blast
qed

theorem channel_weights_and_weighted_mean_witness:
  "has_shape 1 2 2 [[[1, 3], [3, 5]]] \<and> has_shape 1 2 2 [[[1, 2], [3, 4]]]
   \<and> pooled_grads [[[1, 3], [3, 5]]] ! 1 = (3 + 5) / 2
   \<and> weighted_activation [[[1, 2], [3, 4]]] (pooled_grads [[[1, 3], [3, 5]]]) ! 0 ! 1
       = dot_product [3, 4] (pooled_grads [[[1, 3], [3, 5]]]) / 2"
  using channel_weights_and_weighted_mean [of 1 2 2 "[[[1, 3], [3, 5]]]" "[[[1, 2], [3, 4]]]"]
  by (simp add: has_shape_def pooled_grads_def channels_def reduce_mean_def
      weighted_activation_def tf_multiply_def dot_product_def)

text \<open>The claim as stated fails: on a feature map with one position and two channels,
  all values and all gradients 1, the code's raw saliency is 1 and the dot product
  is 2.\<close>

theorem raw_saliency_is_not_dot_product:
  "weighted_activation [[[1, 1]]] (pooled_grads [[[1, 1]]]) = [[1]]
   \<and> spec_raw_saliency [[[1, 1]]] (pooled_grads [[[1, 1]]]) = [[2]]
   \<and> weighted_activation [[[1, 1]]] (pooled_grads [[[1, 1]]])
       \<noteq> spec_raw_saliency [[[1, 1]]] (pooled_grads [[[1, 1]]])"
  by (simp add: pooled_grads_def channels_def reduce_mean_def weighted_activation_def
      tf_multiply_def spec_raw_saliency_def dot_product_def)

section \<open>Grad-CAM: clipping and normalisation\<close>

lemma np_max_empty: "concat h = [] \<Longrightarrow> np_max h = Inl ValueError"
proof -
  assume e: "concat h = []"
  show ?thesis by (simp only: np_max_def e list.case)
qed

lemma np_max_eq_Max:
  assumes "concat h \<noteq> []"
  shows "np_max h = Inr (Max (set (concat h)))"
proof (cases "concat h")
  case Nil
  with assms show ?thesis by simp
next
  case (Cons a list)
  have "fold max list a = Max (set (a # list))" by (rule Max.set_eq_fold [symmetric])
  then show ?thesis by (simp only: np_max_def Cons list.case)
qed

lemma np_max_Inr_iff: "np_max h = Inr m \<longleftrightarrow> concat h \<noteq> [] \<and> m = Max (set (concat h))"
proof (cases "concat h = []")
  case True
  then show ?thesis using np_max_empty [OF True] by (simp del: concat_eq_Nil_conv)
next
  case False
  then show ?thesis using np_max_eq_Max [OF False] by (auto simp del: concat_eq_Nil_conv set_concat)
qed

lemma set_concat_np_maximum0:
  "set (concat (np_maximum0 h)) = (\<lambda>v. max v 0) ` set (concat h)"
  by (auto simp: np_maximum0_def)

lemma np_maximum0_nonneg: "v \<in> set (concat (np_maximum0 h)) \<Longrightarrow> 0 \<le> v"
  by (auto simp: set_concat_np_maximum0 simp del: set_concat)

lemma normalize_heatmap_zero_max:
  assumes "np_max (np_maximum0 h) = Inr 0"
  shows "normalize_heatmap (np_maximum0 h) = Inr (map (map (\<lambda>v. NaN)) h)"
proof -
  from assms have ne: "concat (np_maximum0 h) \<noteq> []"
    and m: "Max (set (concat (np_maximum0 h))) = 0"
    by (simp_all add: np_max_Inr_iff del: concat_eq_Nil_conv set_concat)
  have z: "v = 0" if "v \<in> set (concat (np_maximum0 h))" for v
  proof -
    have "v \<le> Max (set (concat (np_maximum0 h)))" using that by (intro Max_ge) simp_all
    with m np_maximum0_nonneg [OF that] show ?thesis by simp
  qed
  have "max v 0 = 0" if "row \<in> set h" "v \<in> set row" for row v
  proof -
    have "max v 0 \<in> set (concat (np_maximum0 h))"
      using that by (auto simp: np_maximum0_def)
    then show ?thesis by (rule z)
  qed
  then have "map (map (\<lambda>v. np_divide v 0)) (np_maximum0 h) = map (map (\<lambda>v. NaN)) h"
    by (simp add: np_maximum0_def np_divide_def)
  with assms show ?thesis by (simp add: normalize_heatmap_def)
qed

lemma normalize_heatmap_positive_max:
  assumes "np_max (np_maximum0 h) = Inr m" and "0 < m"
  shows "normalize_heatmap (np_maximum0 h) = Inr (map (map (\<lambda>v. Fin (max v 0 / m))) h)
     \<and> (\<forall>row \<in> set h. \<forall>v \<in> set row. 0 \<le> max v 0 / m \<and> max v 0 / m \<le> 1)
     \<and> (\<exists>row \<in> set h. \<exists>v \<in> set row. max v 0 / m = 1)"
proof -
  from assms have ne: "concat (np_maximum0 h) \<noteq> []"
    and m: "m = Max (set (concat (np_maximum0 h)))"
    by (simp_all add: np_max_Inr_iff del: concat_eq_Nil_conv set_concat)
  have n: "normalize_heatmap (np_maximum0 h) = Inr (map (map (\<lambda>v. Fin (max v 0 / m))) h)"
    using assms by (simp add: normalize_heatmap_def np_maximum0_def np_divide_def)
  have le: "max v 0 \<le> m" if "row \<in> set h" "v \<in> set row" for row v
  proof -
    have "max v 0 \<in> set (concat (np_maximum0 h))"
      using that by (auto simp: np_maximum0_def)
    then show ?thesis unfolding m by (intro Max_ge) simp_all
  qed
  have r: "\<forall>row \<in> set h. \<forall>v \<in> set row. 0 \<le> max v 0 / m \<and> max v 0 / m \<le> 1"
    using le assms(2) by (auto simp: divide_le_eq)
  have "m \<in> set (concat (np_maximum0 h))"
    unfolding m using ne by (intro Max_in) simp_all
  then obtain row v where "row \<in> set h" "v \<in> set row" "m = max v 0"
    by (auto simp: np_maximum0_def)
  with assms(2) have "\<exists>row \<in> set h. \<exists>v \<in> set row. max v 0 / m = 1" by force
  with n r show ?thesis by blast
qed

text \<open>
  C3. The source divides by the maximum without a guard. For every weighted activation
  whose clipped field has the maximum zero, the division is \<open>0 / 0\<close> at every
  position: numpy raises no exception and the result is the field of not-a-number
  values, not the field of zeros (the comment on the source line reads
  \<^verbatim>\<open>Normalize to [0, 1]\<close>).
\<close>

theorem normalize_zero_max_gives_nan:
  assumes "np_max (np_maximum0 h) = Inr 0"
  shows "normalize_heatmap (np_maximum0 h) = Inr (map (map (\<lambda>v. NaN)) h)"
  using assms by (rule normalize_heatmap_zero_max)

theorem normalize_zero_max_gives_nan_witness:
  "np_max (np_maximum0 [[-1, 0], [0, -3]]) = Inr 0
   \<and> normalize_heatmap (np_maximum0 [[-1, 0], [0, -3]]) = Inr [[NaN, NaN], [NaN, NaN]]
   \<and> normalize_heatmap (np_maximum0 [[-1, 0], [0, -3]]) \<noteq> Inr [[Fin 0, Fin 0], [Fin 0, Fin 0]]"
proof -
  have m: "np_max (np_maximum0 [[-1, 0], [0, -3]]) = Inr 0"
    by (simp add: np_max_def np_maximum0_def)
  from m normalize_zero_max_gives_nan [OF m] show ?thesis by simp
qed

lemma unat_astype_uint8:
  assumes "0 \<le> x" and "x < 256"
  shows "unat (astype_uint8 x) = nat \<lfloor>x\<rfloor>"
proof -
  have f: "0 \<le> \<lfloor>x\<rfloor>" "\<lfloor>x\<rfloor> < 256" using assms by (simp_all add: floor_less_iff)
  then have "uint (word_of_int \<lfloor>x\<rfloor> :: 8 word) = \<lfloor>x\<rfloor>"
    by (simp add: uint_word_of_int)
  then have "unat (word_of_int \<lfloor>x\<rfloor> :: 8 word) = nat \<lfloor>x\<rfloor>"
    by (simp add: unat_eq_nat_uint)
  with assms(1) show ?thesis by (simp add: astype_uint8_def)
qed

lemma upt_0_2: "[0..<2] = [0, 1]"
  by (simp add: numeral_2_eq_2)

lemma np_uint8_scaled:
  assumes "0 \<le> v" and "v \<le> 1"
  shows "unat (np_uint8 (times255 (Fin v))) = nat \<lfloor>255 * v\<rfloor>
     \<and> unat (np_uint8 (times255 (Fin v))) \<le> 255"
proof -
  have lo: "0 \<le> 255 * v" using assms by simp
  have hi: "255 * v < 256" using assms by simp
  have u: "unat (np_uint8 (times255 (Fin v))) = nat \<lfloor>255 * v\<rfloor>"
    using unat_astype_uint8 [OF lo hi] by (simp add: np_uint8_def times255_def)
  have "255 * v \<le> 255" using assms by simp
  then have "\<lfloor>255 * v\<rfloor> \<le> \<lfloor>255 :: real\<rfloor>" by (rule floor_mono)
  moreover have "\<lfloor>255 :: real\<rfloor> = 255" by simp
  ultimately have "nat \<lfloor>255 * v\<rfloor> \<le> 255" by linarith
  with u show ?thesis by simp
qed

lemma saliency_before_resize:
  assumes shape: "has_shape H W C conv_outputs"
    and raw: "raw = weighted_activation conv_outputs w"
    and m: "np_max (np_maximum0 raw) = Inr m" and pos: "0 < m"
    and sal: "saliency = map (map (\<lambda>v. Fin (max v 0 / m))) raw"
  shows "normalize_heatmap (np_maximum0 raw) = Inr saliency
     \<and> length saliency = H \<and> (\<forall>i<H. length (saliency ! i) = W)
     \<and> (\<forall>i<H. \<forall>j<W. \<exists>v. saliency ! i ! j = Fin v \<and> 0 \<le> v \<and> v \<le> 1)
     \<and> (\<exists>i<H. \<exists>j<W. saliency ! i ! j = Fin 1)"
proof -
  note p = normalize_heatmap_positive_max [OF m pos]
  have d: "length raw = H" "\<forall>i<H. length (raw ! i) = W"
    using weighted_activation_dims [OF shape, of w] raw by simp_all
  have n: "normalize_heatmap (np_maximum0 raw) = Inr saliency"
    using p sal by simp
  have l: "length saliency = H" "\<forall>i<H. length (saliency ! i) = W"
    using d sal by simp_all
  have e: "saliency ! i ! j = Fin (max (raw ! i ! j) 0 / m)" if "i < H" "j < W" for i j
    using that d sal by simp
  have r: "\<forall>i<H. \<forall>j<W. \<exists>v. saliency ! i ! j = Fin v \<and> 0 \<le> v \<and> v \<le> 1"
  proof (intro allI impI)
    fix i j assume ij: "i < H" "j < W"
    then have "raw ! i \<in> set raw" "raw ! i ! j \<in> set (raw ! i)" using d by simp_all
    with p have "0 \<le> max (raw ! i ! j) 0 / m \<and> max (raw ! i ! j) 0 / m \<le> 1" by blast
    with e [OF ij] show "\<exists>v. saliency ! i ! j = Fin v \<and> 0 \<le> v \<and> v \<le> 1" by blast
  qed
  from p obtain row v where rv: "row \<in> set raw" "v \<in> set row" "max v 0 / m = 1" by blast
  from rv(1) obtain i where i: "i < length raw" "raw ! i = row" by (auto simp: in_set_conv_nth)
  from rv(2) obtain j where j: "j < length row" "row ! j = v" by (auto simp: in_set_conv_nth)
  have "i < H" using i d by simp
  moreover have "j < W" using i j d by auto
  moreover have "saliency ! i ! j = Fin 1"
  proof -
    have "raw ! i ! j = v" using i j by simp
    with e [OF \<open>i < H\<close> \<open>j < W\<close>] have "saliency ! i ! j = Fin (max v 0 / m)"
      by (simp only:)
    with rv(3) show ?thesis by (simp only:)
  qed
  ultimately have x: "\<exists>i<H. \<exists>j<W. saliency ! i ! j = Fin 1" by blast
  from n l r x show ?thesis by blast
qed

text \<open>
  C4, as amended. When some weighted activation is positive, the normalised map inside
  \<^verbatim>\<open>get_gradcam_heatmap\<close> (the value of \<^verbatim>\<open>heatmap\<close> after the division) has
  the resolution of the feature map, all its values lie in \<open>[0, 1]\<close> and the value 1
  occurs. The map that the function returns is this map after \<^verbatim>\<open>cv2.resize\<close> to
  the image size and after \<^verbatim>\<open>np.uint8(255 * heatmap)\<close>: its values are 8-bit
  integers, the integer part of 255 times the resized value and at most 255 for a
  resized value in \<open>[0, 1]\<close>, at the resolution that the resize gives.
\<close>

theorem gradcam_returned_heatmap:
  assumes "load_img fs img_path = Inr img" and "get_layer model name = Inr l"
    and "conv_outputs = layer_output model l (img_to_array_scaled img)"
    and "grads = tape_gradient (select_loss (forward model (img_to_array_scaled img)))
                   (output_gradient model l (img_to_array_scaled img))"
    and "has_shape H W C conv_outputs"
    and "raw = weighted_activation conv_outputs (pooled_grads grads)"
    and "np_max (np_maximum0 raw) = Inr m" and "0 < m"
    and "saliency = map (map (\<lambda>v. Fin (max v 0 / m))) raw"
  shows "length saliency = H \<and> (\<forall>i<H. length (saliency ! i) = W)
     \<and> (\<forall>i<H. \<forall>j<W. \<exists>v. saliency ! i ! j = Fin v \<and> 0 \<le> v \<and> v \<le> 1)
     \<and> (\<exists>i<H. \<exists>j<W. saliency ! i ! j = Fin 1)
     \<and> snd (get_gradcam_heatmap fs cv2_resize model img_path img_size name)
         = Inr (map (map (\<lambda>v. np_uint8 (times255 v)))
                  (cv2_resize saliency (snd img_size, fst img_size)), img)
     \<and> (\<forall>v. 0 \<le> v \<and> v \<le> 1 \<longrightarrow>
           unat (np_uint8 (times255 (Fin v))) = nat \<lfloor>255 * v\<rfloor>
           \<and> unat (np_uint8 (times255 (Fin v))) \<le> 255)"
proof -
  note s = saliency_before_resize [OF assms(5,6,7,8,9)]
  have "snd (get_gradcam_heatmap fs cv2_resize model img_path img_size name)
         = Inr (map (map (\<lambda>v. np_uint8 (times255 v)))
                  (cv2_resize saliency (snd img_size, fst img_size)), img)"
    using s assms(3,4,6) by (simp add: get_gradcam_heatmap_ok [OF assms(1,2)])
  with s np_uint8_scaled show ?thesis by blast
qed

theorem gradcam_returned_heatmap_witness:
  "load_img example_storage ''b.jpg'' = Inr [[[255, 0, 51], [0, 0, 0]], [[10, 20, 30], [40, 50, 60]]]
   \<and> has_shape 1 2 2 [[[1, 2], [3, 0]]]
   \<and> weighted_activation [[[1, 2], [3, 0]]] (pooled_grads [[[1, 1], [1, 1]]]) = [[3/2, 3/2]]
   \<and> np_max (np_maximum0 [[3/2, 3/2]]) = Inr (3/2)
   \<and> snd (get_gradcam_heatmap example_storage example_resize
            (example_model (9/10) [[[1, 2], [3, 0]]] [[[1, 1], [1, 1]]])
            ''b.jpg'' (2, 2) ''block14_sepconv2_act'')
       = Inr ([[255, 255], [255, 255]],
              [[[255, 0, 51], [0, 0, 0]], [[10, 20, 30], [40, 50, 60]]])"
  using gradcam_returned_heatmap [of example_storage "''b.jpg''"
      "[[[255, 0, 51], [0, 0, 0]], [[10, 20, 30], [40, 50, 60]]]"
      "example_model (9/10) [[[1, 2], [3, 0]]] [[[1, 1], [1, 1]]]"
      "''block14_sepconv2_act''" "''block14_sepconv2_act''"
      "[[[1, 2], [3, 0]]]" "[[[1, 1], [1, 1]]]" 1 2 2 "[[3/2, 3/2]]" "3/2"
      "[[Fin 1, Fin 1]]" example_resize "(2, 2)"]
  by (simp add: load_img_def example_storage_def example_model_def get_layer_def has_shape_def
      select_loss_eq pooled_grads_def channels_def reduce_mean_def weighted_activation_def
      tf_multiply_def np_maximum0_def np_max_def example_resize_def times255_def
      np_uint8_def astype_uint8_def upt_0_2)

text \<open>The claim as stated fails of the returned map: for a feature map with one
  position and a 2 x 2 image, the function returns a 2 x 2 map whose values are all
  255. Any interpolation of a map with one entry repeats that entry.\<close>

theorem returned_heatmap_is_not_unit_range:
  "snd (get_gradcam_heatmap example_storage example_resize
          (example_model (9/10) [[[1, 2]]] [[[1, 1]]]) ''b.jpg'' (2, 2) ''block14_sepconv2_act'')
     = Inr ([[255, 255], [255, 255]],
            [[[255, 0, 51], [0, 0, 0]], [[10, 20, 30], [40, 50, 60]]])
   \<and> weighted_activation [[[1, 2]]] (pooled_grads [[[1, 1]]]) = [[3/2]]"
  by (simp add: get_gradcam_heatmap_def load_img_def example_storage_def example_model_def
      get_layer_def select_loss_eq pooled_grads_def channels_def reduce_mean_def
      weighted_activation_def tf_multiply_def np_maximum0_def normalize_heatmap_def
      np_max_def np_divide_def example_resize_def times255_def np_uint8_def astype_uint8_def
      upt_0_2)

text \<open>On a feature map without a positive weighted activation the division gives
  not-a-number at every position (\<open>normalize_heatmap_zero_max\<close>); with the conversion
  of not-a-number to 0 taken in \<open>np_uint8\<close>, the returned 8-bit map is zero.\<close>

lemma gradcam_without_positive_contribution_returns_zeros:
  "get_gradcam_heatmap example_storage example_resize
       (example_model (9/10) [[[1, 2], [3, 0]]] [[[-1, -1], [-1, -1]]])
       ''a.jpg'' (1, 2) ''block14_sepconv2_act''
     = ([LoadImg ''a.jpg'', GetLayer ''block14_sepconv2_act'', RunGradModel ''a.jpg''],
        Inr ([[0, 0]], [[[255, 0, 51]]]))"
  by (simp add: get_gradcam_heatmap_def load_img_def example_storage_def example_model_def
      get_layer_def select_loss_eq pooled_grads_def channels_def reduce_mean_def
      weighted_activation_def tf_multiply_def np_maximum0_def normalize_heatmap_def
      np_max_def np_divide_def example_resize_def times255_def np_uint8_def upt_0_2)

section \<open>Grad-CAM: the layer lookup\<close>

lemma get_layer_missing: "name \<notin> set (layers model) \<Longrightarrow> get_layer model name = Inl ValueError"
proof -
  assume "name \<notin> set (layers model)"
  then have "find (\<lambda>layer. layer = name) (layers model) = None"
    by (simp add: find_None_iff)
  then show ?thesis by (simp add: get_layer_def)
qed

lemma get_layer_present: "name \<in> set (layers model) \<Longrightarrow> get_layer model name = Inr name"
proof -
  assume "name \<in> set (layers model)"
  then obtain l where "find (\<lambda>layer. layer = name) (layers model) = Some l"
    by (cases "find (\<lambda>layer. layer = name) (layers model)") (auto simp: find_None_iff)
  moreover from this have "l = name" by (auto simp: find_Some_iff)
  ultimately show ?thesis by (simp add: get_layer_def)
qed

text \<open>
  C8, as amended. There is no construction step apart from the call: when no layer of
  the model carries the given name, \<^verbatim>\<open>get_layer\<close> raises ValueError inside
  \<^verbatim>\<open>get_gradcam_heatmap\<close>, after the call has read its image from storage and
  before the network is evaluated. When the image cannot be read, the error of the read
  is raised and the layer is never looked up. In the loop over the test images this
  happens at the first image.
\<close>

theorem missing_layer_raised_after_image_load:
  assumes "name \<notin> set (layers model)"
  shows "get_layer model name = Inl ValueError
     \<and> (\<forall>img. load_img fs p = Inr img \<longrightarrow>
           get_gradcam_heatmap fs cv2_resize model p img_size name
             = ([LoadImg p, GetLayer name], Inl ValueError))
     \<and> (\<forall>e. load_img fs p = Inl e \<longrightarrow>
           get_gradcam_heatmap fs cv2_resize model p img_size name = ([LoadImg p], Inl e))
     \<and> fst (gradcam_loop fs cv2_resize model img_size name (p # rest))
         = fst (get_gradcam_heatmap fs cv2_resize model p img_size name)
     \<and> (\<exists>e. snd (gradcam_loop fs cv2_resize model img_size name (p # rest)) = Inl e)"
proof -
  have g: "get_layer model name = Inl ValueError" using assms by (rule get_layer_missing)
  have a: "get_gradcam_heatmap fs cv2_resize model p img_size name
      = ([LoadImg p, GetLayer name], Inl ValueError)"
    if "load_img fs p = Inr img" for img
    using that g by (simp add: get_gradcam_heatmap_def)
  have b: "get_gradcam_heatmap fs cv2_resize model p img_size name = ([LoadImg p], Inl e)"
    if "load_img fs p = Inl e" for e
    using that by (simp add: get_gradcam_heatmap_def)
  have c: "fst (gradcam_loop fs cv2_resize model img_size name (p # rest))
         = fst (get_gradcam_heatmap fs cv2_resize model p img_size name)
     \<and> (\<exists>e. snd (gradcam_loop fs cv2_resize model img_size name (p # rest)) = Inl e)"
    by (cases "load_img fs p") (simp_all add: a b)
  from g a b c show ?thesis by blast
qed

theorem missing_layer_raised_after_image_load_witness:
  "''nonexistent_layer'' \<notin> set (layers (example_model (9/10) [[[1, 2]]] [[[1, 1]]]))
   \<and> get_gradcam_heatmap example_storage example_resize
        (example_model (9/10) [[[1, 2]]] [[[1, 1]]]) ''a.jpg'' (1, 1) ''nonexistent_layer''
       = ([LoadImg ''a.jpg'', GetLayer ''nonexistent_layer''], Inl ValueError)"
proof -
  have n: "''nonexistent_layer'' \<notin> set (layers (example_model (9/10) [[[1, 2]]] [[[1, 1]]]))"
    by (simp add: example_model_def)
  have l: "load_img example_storage ''a.jpg'' = Inr [[[255, 0, 51]]]"
    by (simp add: load_img_def example_storage_def)
  from n l missing_layer_raised_after_image_load
      [OF n, of example_storage "''a.jpg''" example_resize "(1, 1)"]
  show ?thesis by simp
qed

text \<open>The claim as stated fails: with a readable image the image is read before the
  lookup fails, and with an unreadable image the failure is that of the read.\<close>

theorem missing_layer_not_checked_first:
  "get_gradcam_heatmap example_storage example_resize
        (example_model (9/10) [[[1, 2]]] [[[1, 1]]]) ''a.jpg'' (1, 1) ''nonexistent_layer''
       = ([LoadImg ''a.jpg'', GetLayer ''nonexistent_layer''], Inl ValueError)
   \<and> get_gradcam_heatmap example_storage example_resize
        (example_model (9/10) [[[1, 2]]] [[[1, 1]]]) ''missing.jpg'' (1, 1) ''nonexistent_layer''
       = ([LoadImg ''missing.jpg''], Inl FileNotFoundError)"
  by (simp add: get_gradcam_heatmap_def load_img_def example_storage_def example_model_def
      get_layer_def)

section \<open>The overlay: the blend per pixel\<close>

lemma overlay_value_formula:
  "overlay_value orig h = astype_uint8 (np_clip (0.6 * orig + 0.4 * real (unat h)) 0 255)"
  by (simp add: overlay_value_def Let_def)

lemma unat_uint8_range: "0 \<le> real (unat (h :: uint8)) \<and> real (unat h) \<le> 255"
proof -
  have "unat h < 2 ^ LENGTH(8)" by (rule unsigned_less)
  then have "unat h \<le> 255" by simp
  then have "real (unat h) \<le> real 255" by (rule of_nat_mono)
  moreover have "0 \<le> real (unat h)" by (rule of_nat_0_le_iff)
  ultimately show ?thesis by simp
qed

lemma blend_in_range:
  assumes "0 \<le> orig" and "orig \<le> 255"
  shows "np_clip (0.6 * orig + 0.4 * real (unat (h :: uint8))) 0 255 = 0.6 * orig + 0.4 * real (unat h)"
  using assms unat_uint8_range [of h] by (auto simp: np_clip_def min_def max_def)

lemma overlay_value_in_range:
  assumes "0 \<le> orig" and "orig \<le> 255"
  shows "unat (overlay_value orig h) = nat \<lfloor>0.6 * orig + 0.4 * real (unat h)\<rfloor>"
proof -
  let ?b = "0.6 * orig + 0.4 * real (unat h)"
  have lo: "0 \<le> ?b"
    using assms unat_uint8_range [of h] by auto
  have hi: "?b < 256"
    using assms unat_uint8_range [of h] by auto
  have "overlay_value orig h = astype_uint8 (np_clip ?b 0 255)"
    by (rule overlay_value_formula)
  also have "np_clip ?b 0 255 = ?b"
    by (rule blend_in_range [OF assms])
  finally have "overlay_value orig h = astype_uint8 ?b" .
  then show ?thesis using unat_astype_uint8 [OF lo hi] by (simp only:)
qed

lemma overlay_nth:
  assumes "i < length original_img" "i < length heatmap"
    and "j < length (original_img ! i)" "j < length (heatmap ! i)"
    and "c < length (original_img ! i ! j)" "c < length (heatmap ! i ! j)"
  shows "overlay original_img heatmap ! i ! j ! c
     = overlay_value (original_img ! i ! j ! c) (heatmap ! i ! j ! c)"
  using assms by (simp add: overlay_def)

lemma colour_nth:
  assumes "i < length heatmap" "j < length (heatmap ! i)"
  shows "cvtColor_BGR2RGB (applyColorMap palette heatmap) ! i ! j = rev (palette (heatmap ! i ! j))"
  using assms by (simp add: cvtColor_BGR2RGB_def applyColorMap_def)

text \<open>
  C7. For an original image and a colour-mapped heat map of the same shape, every
  channel of every pixel of the overlay is \<open>clip (0.6 * original + 0.4 * heatmap) 0 255\<close>
  cut to an 8-bit integer. For an original value in \<open>[0, 255]\<close> the clip changes
  nothing, and the overlay is the integer part of the blend: with a heat map value
  \<open>h\<close> written as \<open>255 * (h / 255)\<close>, of \<open>0.6 * original + 0.4 * 255 * (h / 255)\<close>;
  with a zero heat map value, of \<open>0.6 * original\<close>, less than one below it; and where
  the grey heat map is at its maximum 255, of \<open>0.6 * original\<close> plus \<open>0.4 * 255\<close>
  times the palette's colour at 255 as a fraction of 255.
\<close>

theorem overlay_blend:
  assumes "i < length original_img" and "i < length heatmap"
    and "j < length (original_img ! i)" and "j < length (heatmap ! i)"
    and "c < length (original_img ! i ! j)" and "c < length (heatmap ! i ! j)"
    and "orig = original_img ! i ! j ! c" and "h = heatmap ! i ! j ! c"
  shows "overlay original_img heatmap ! i ! j ! c
           = astype_uint8 (np_clip (0.6 * orig + 0.4 * real (unat h)) 0 255)
     \<and> (0 \<le> orig \<and> orig \<le> 255 \<longrightarrow>
          unat (overlay original_img heatmap ! i ! j ! c)
            = nat \<lfloor>0.6 * orig + 0.4 * 255 * (real (unat h) / 255)\<rfloor>)
     \<and> (0 \<le> orig \<and> orig \<le> 255 \<and> h = 0 \<longrightarrow>
          unat (overlay original_img heatmap ! i ! j ! c) = nat \<lfloor>0.6 * orig\<rfloor>
          \<and> real (unat (overlay original_img heatmap ! i ! j ! c)) \<le> 0.6 * orig
          \<and> 0.6 * orig < real (unat (overlay original_img heatmap ! i ! j ! c)) + 1)
     \<and> (0 \<le> orig \<and> orig \<le> 255 \<and> i < length grey \<and> j < length (grey ! i) \<and> grey ! i ! j = 255
          \<and> heatmap = cvtColor_BGR2RGB (applyColorMap palette grey) \<longrightarrow>
          unat (overlay original_img heatmap ! i ! j ! c)
            = nat \<lfloor>0.6 * orig + 0.4 * 255 * (real (unat (rev (palette 255) ! c)) / 255)\<rfloor>)"
proof -
  have v: "overlay original_img heatmap ! i ! j ! c = overlay_value orig h"
    using overlay_nth [OF assms(1-6)] assms(7,8) by simp
  have a: "overlay_value orig h = astype_uint8 (np_clip (0.6 * orig + 0.4 * real (unat h)) 0 255)"
    by (rule overlay_value_formula)
  have b: "unat (overlay_value orig h) = nat \<lfloor>0.6 * orig + 0.4 * 255 * (real (unat h) / 255)\<rfloor>"
    if "0 \<le> orig \<and> orig \<le> 255"
  proof -
    have "0.6 * orig + 0.4 * 255 * (real (unat h) / 255) = 0.6 * orig + 0.4 * real (unat h)"
      by simp
    then show ?thesis using overlay_value_in_range [of orig h] that by (simp only:)
  qed
  have z: "unat (overlay_value orig h) = nat \<lfloor>0.6 * orig\<rfloor>
      \<and> real (unat (overlay_value orig h)) \<le> 0.6 * orig
      \<and> 0.6 * orig < real (unat (overlay_value orig h)) + 1"
    if "0 \<le> orig \<and> orig \<le> 255 \<and> h = 0"
  proof -
    have u: "unat (overlay_value orig h) = nat \<lfloor>0.6 * orig\<rfloor>"
      using overlay_value_in_range [of orig h] that by simp
    have f: "0 \<le> \<lfloor>0.6 * orig\<rfloor>" using that by simp
    have "real (nat \<lfloor>0.6 * orig\<rfloor>) = of_int \<lfloor>0.6 * orig\<rfloor>" using f by simp
    then have "real (nat \<lfloor>0.6 * orig\<rfloor>) \<le> 0.6 * orig
        \<and> 0.6 * orig < real (nat \<lfloor>0.6 * orig\<rfloor>) + 1"
      by linarith
    with u show ?thesis by (simp only:)
  qed
  have m: "unat (overlay_value orig h)
      = nat \<lfloor>0.6 * orig + 0.4 * 255 * (real (unat (rev (palette 255) ! c)) / 255)\<rfloor>"
    if "0 \<le> orig \<and> orig \<le> 255 \<and> i < length grey \<and> j < length (grey ! i) \<and> grey ! i ! j = 255
        \<and> heatmap = cvtColor_BGR2RGB (applyColorMap palette grey)"
  proof -
    have "heatmap ! i ! j = rev (palette 255)"
      using that colour_nth [of i grey j palette] by simp
    then have "h = rev (palette 255) ! c" using assms(8) by simp
    then show ?thesis using b that by simp
  qed
  from a b z m show ?thesis unfolding v by blast
qed

theorem overlay_blend_witness:
  "overlay [[[255, 0, 51]]] [[[0, 0, 255]]] ! 0 ! 0 ! 2
       = astype_uint8 (np_clip (0.6 * 51 + 0.4 * real (unat (255 :: uint8))) 0 255)
   \<and> unat (overlay [[[255, 0, 51]]] [[[0, 0, 255]]] ! 0 ! 0 ! 2) = 132
   \<and> unat (overlay [[[255, 0, 51]]] [[[0, 0, 255]]] ! 0 ! 0 ! 0) = 153"
  using overlay_blend [of 0 "[[[255, 0, 51]]]" "[[[0, 0, 255]]]" 0 2 51 255]
    overlay_blend [of 0 "[[[255, 0, 51]]]" "[[[0, 0, 255]]]" 0 0 255 0]
  by (simp add: astype_uint8_def np_clip_def)

section \<open>The labels of the test images\<close>

lemma autistics_in_non_autistics: "str_in ''Autistics'' ''Non_Autistics''"
  by (simp add: str_in_def sublist_code)

lemma str_in_trans: "str_in a b \<Longrightarrow> str_in b c \<Longrightarrow> str_in a c"
  unfolding str_in_def by (rule sublist_order.order_trans)

lemma non_autistics_imp_autistics:
  "str_in ''Non_Autistics'' img_path \<Longrightarrow> str_in ''Autistics'' img_path"
  using autistics_in_non_autistics by (rule str_in_trans)

lemma get_true_label_plural:
  assumes "str_in ''Non_Autistics'' img_path"
  shows "get_true_label img_path = Some ''Autistic''"
proof -
  have "str_in ''Autistics'' img_path"
    using assms by (rule non_autistics_imp_autistics)
  then show ?thesis by (simp add: get_true_label_def)
qed

lemma get_true_label_never_non_autistic: "get_true_label img_path \<noteq> Some ''Non_Autistic''"
proof (cases "str_in ''Autistics'' img_path")
  case True
  then show ?thesis by (simp add: get_true_label_def)
next
  case False
  then have "\<not> str_in ''Non_Autistics'' img_path"
    using non_autistics_imp_autistics [of img_path] by blast
  with False show ?thesis by (simp add: get_true_label_def)
qed

lemma get_true_label_cases:
  "get_true_label img_path = (if str_in ''Autistics'' img_path then Some ''Autistic'' else None)"
  using non_autistics_imp_autistics [of img_path] by (auto simp: get_true_label_def)

lemma autistic_dir_eq:
  "sep = CHR ''/'' \<or> sep = CHR 0x5C \<Longrightarrow> autistic_dir sep = ''data/test'' @ [sep] @ ''Autistic''"
  by (auto simp: autistic_dir_def os_path_join_def test_dir_def)

lemma non_autistic_dir_eq:
  "sep = CHR ''/'' \<or> sep = CHR 0x5C \<Longrightarrow> non_autistic_dir sep = ''data/test'' @ [sep] @ ''Non_Autistic''"
  by (auto simp: non_autistic_dir_def os_path_join_def test_dir_def)

lemma str_in_joined_autistic:
  assumes "sep = CHR ''/'' \<or> sep = CHR 0x5C"
  shows "str_in ''Autistics'' (os_path_join sep (autistic_dir sep) fname) = str_in ''Autistics'' fname"
  using assms
  by (auto simp: autistic_dir_eq os_path_join_def str_in_def sublist_Cons_right)

lemma str_in_joined_non_autistic:
  assumes "sep = CHR ''/'' \<or> sep = CHR 0x5C"
  shows "str_in ''Autistics'' (os_path_join sep (non_autistic_dir sep) fname) = str_in ''Autistics'' fname"
  using assms
  by (auto simp: non_autistic_dir_eq os_path_join_def str_in_def sublist_Cons_right)


lemma test_images_member:
  assumes "q \<in> set (test_images sep als nls)"
  shows "(\<exists>f \<in> set als. q = os_path_join sep (autistic_dir sep) f)
       \<or> (\<exists>f \<in> set nls. q = os_path_join sep (non_autistic_dir sep) f)"
  using assms
  by (auto simp: test_images_def listed_images_def dest!: in_set_takeD in_set_dropD)

lemma get_true_label_listed:
  assumes sep: "sep = CHR ''/'' \<or> sep = CHR 0x5C"
    and names: "\<forall>f \<in> set als \<union> set nls. \<not> str_in ''Autistics'' f"
    and q: "q \<in> set (test_images sep als nls)"
  shows "get_true_label q = None"
proof -
  from test_images_member [OF q] consider
    f where "f \<in> set als" "q = os_path_join sep (autistic_dir sep) f"
    | f where "f \<in> set nls" "q = os_path_join sep (non_autistic_dir sep) f"
    by blast
  then show ?thesis
  proof cases
    case 1
    with names have "\<not> str_in ''Autistics'' q"
      by (simp add: str_in_joined_autistic [OF sep])
    then show ?thesis by (simp add: get_true_label_cases)
  next
    case 2
    with names have "\<not> str_in ''Autistics'' q"
      by (simp add: str_in_joined_non_autistic [OF sep])
    then show ?thesis by (simp add: get_true_label_cases)
  qed
qed

text \<open>
  C6. \<^verbatim>\<open>get_true_label\<close> returns \<^verbatim>\<open>Autistic\<close> for every path that contains
  \<^verbatim>\<open>Non_Autistics\<close>, because \<^verbatim>\<open>Autistics\<close> occurs in it and is tested first; it
  never returns \<^verbatim>\<open>Non_Autistic\<close>. The paths that the listing of the test images
  produces are made of the singular directory names \<^verbatim>\<open>Autistic\<close> and
  \<^verbatim>\<open>Non_Autistic\<close> and a directory entry; as long as no entry's own name contains
  \<^verbatim>\<open>Autistics\<close> (the data set names its files \<^verbatim>\<open>Autistic.7.jpg\<close>), the function
  returns None for every one of them, with either path separator.
\<close>

theorem get_true_label_on_plural_and_listed_paths:
  "(str_in ''Non_Autistics'' p \<longrightarrow> get_true_label p = Some ''Autistic'')
   \<and> get_true_label p \<noteq> Some ''Non_Autistic''
   \<and> ((sep = CHR ''/'' \<or> sep = CHR 0x5C) \<and> (\<forall>f \<in> set als \<union> set nls. \<not> str_in ''Autistics'' f)
        \<longrightarrow> (\<forall>q \<in> set (test_images sep als nls). get_true_label q = None))"
  using get_true_label_plural [of p] get_true_label_never_non_autistic [of p]
    get_true_label_listed [of sep als nls]
  by blast

theorem get_true_label_witness:
  "str_in ''Non_Autistics'' ''data/test/Non_Autistics/1.jpg''
   \<and> get_true_label ''data/test/Non_Autistics/1.jpg'' = Some ''Autistic''
   \<and> test_images (CHR ''/'') (replicate 45 ''x.jpg'' @ [''Autistic.46.jpg''])
        (replicate 45 ''y.jpg'' @ [''Non_Autistic.46.jpg''])
       = [''data/test/Autistic/Autistic.46.jpg'', ''data/test/Non_Autistic/Non_Autistic.46.jpg'']
   \<and> get_true_label ''data/test/Autistic/Autistic.46.jpg'' = None
   \<and> get_true_label ''data/test/Non_Autistic/Non_Autistic.46.jpg'' = None"
proof -
  let ?als = "replicate 45 ''x.jpg'' @ [''Autistic.46.jpg'']"
  let ?nls = "replicate 45 ''y.jpg'' @ [''Non_Autistic.46.jpg'']"
  have a: "str_in ''Non_Autistics'' ''data/test/Non_Autistics/1.jpg''"
    by (simp add: str_in_def sublist_code)
  have t: "test_images (CHR ''/'') ?als ?nls
       = [''data/test/Autistic/Autistic.46.jpg'', ''data/test/Non_Autistic/Non_Autistic.46.jpg'']"
    by (simp add: test_images_def listed_images_def is_image_name_def suffix_to_prefix
        autistic_dir_def non_autistic_dir_def test_dir_def os_path_join_def)
  have n: "\<forall>f \<in> set ?als \<union> set ?nls. \<not> str_in ''Autistics'' f"
    by (simp add: str_in_def sublist_code)
  from a t n get_true_label_on_plural_and_listed_paths
      [of "''data/test/Non_Autistics/1.jpg''" "CHR ''/''" ?als ?nls]
  show ?thesis by simp
qed

section \<open>The evaluation loop: failures\<close>

lemma evaluation_loop_abort:
  assumes "predict_asd fs model bad = Inl e"
  shows "evaluation_loop fs model pre c out = (printed, Inr n) \<Longrightarrow>
         evaluation_loop fs model (pre @ bad # post) c out = (printed, Inl e)"
proof (induction pre arbitrary: c out)
  case Nil
  with assms show ?case by simp
next
  case (Cons p pre)
  show ?case
  proof (cases "predict_asd fs model p")
    case (Inl e')
    with Cons.prems show ?thesis by simp
  next
    case (Inr r)
    obtain label conf where r: "r = (label, conf)" by (cases r)
    from Cons.prems Inr r show ?thesis
      by (simp add: Let_def Cons.IH)
  qed
qed

lemma evaluation_loop_length:
  "evaluation_loop fs model imgs c out = (printed, Inr n) \<Longrightarrow>
   length printed = length out + length imgs \<and> n \<le> c + length imgs"
proof (induction imgs arbitrary: c out)
  case Nil
  then show ?case by simp
next
  case (Cons p imgs)
  show ?case
  proof (cases "predict_asd fs model p")
    case (Inl e')
    with Cons.prems show ?thesis by simp
  next
    case (Inr r)
    obtain label conf where r: "r = (label, conf)" by (cases r)
    from Cons.prems Inr r Cons.IH show ?thesis
      by (fastforce simp: Let_def split: if_splits)
  qed
qed

text \<open>
  C10, as amended. The loop has no handler. When the image of one item cannot be
  loaded, the exception leaves the loop at that item: what was printed is what the
  items before it printed, the items after it are not evaluated, and no accuracy is
  computed.
\<close>

theorem evaluation_aborts_at_first_load_failure:
  assumes "load_img fs bad = Inl e"
    and "evaluation_loop fs model pre 0 [] = (printed, Inr n)"
  shows "evaluate fs model (pre @ bad # post) = (printed, Inl e) \<and> length printed = length pre"
proof -
  have "predict_asd fs model bad = Inl e" using assms(1) by (rule predict_asd_failed)
  then have "evaluation_loop fs model (pre @ bad # post) 0 [] = (printed, Inl e)"
    using assms(2) by (rule evaluation_loop_abort)
  then have "evaluate fs model (pre @ bad # post) = (printed, Inl e)"
    by (simp add: evaluate_def)
  moreover have "length printed = length pre"
    using evaluation_loop_length [OF assms(2)] by simp
  ultimately show ?thesis by simp
qed

theorem evaluation_aborts_witness:
  "load_img example_storage ''missing.jpg'' = Inl FileNotFoundError
   \<and> evaluation_loop example_storage (example_model (9/10) [] []) [''a.jpg''] 0 []
       = ([\<lparr>rec_path = ''a.jpg'', rec_true_label = None, rec_predicted_label = ''Autistic'',
            rec_confidence = 9/10, rec_correct = False\<rparr>], Inr 0)
   \<and> evaluate example_storage (example_model (9/10) [] []) ([''a.jpg''] @ ''missing.jpg'' # [''a.jpg''])
       = ([\<lparr>rec_path = ''a.jpg'', rec_true_label = None, rec_predicted_label = ''Autistic'',
            rec_confidence = 9/10, rec_correct = False\<rparr>], Inl FileNotFoundError)"
proof -
  have l: "load_img example_storage ''missing.jpg'' = Inl FileNotFoundError"
    by (simp add: load_img_def example_storage_def)
  have p: "predict_asd example_storage (example_model (9/10) [] []) ''a.jpg'' = Inr (''Autistic'', 9/10)"
    by (simp add: predict_asd_def load_img_def example_storage_def example_model_def model_predict_def
        img_to_array_scaled_def)
  have t: "get_true_label ''a.jpg'' = None"
    by (simp add: get_true_label_def str_in_def sublist_code)
  have r: "evaluation_loop example_storage (example_model (9/10) [] []) [''a.jpg''] 0 []
       = ([\<lparr>rec_path = ''a.jpg'', rec_true_label = None, rec_predicted_label = ''Autistic'',
            rec_confidence = 9/10, rec_correct = False\<rparr>], Inr 0)"
    by (simp add: p t)
  from l r evaluation_aborts_at_first_load_failure [OF l r, of "[''a.jpg'']"] show ?thesis
    by simp
qed

text \<open>The claim as stated fails: the first of two items cannot be loaded, and the run
  ends with its error without a line for the second, loadable item.\<close>

theorem load_failure_aborts_batch_example:
  "evaluate example_storage (example_model (9/10) [] []) [''missing.jpg'', ''a.jpg'']
     = ([], Inl FileNotFoundError)"
  by (simp add: evaluate_def predict_asd_def load_img_def example_storage_def)

text \<open>
  C9, as amended. On an empty list of test images the loop body never runs and the
  accuracy is computed as \<open>0 / 0\<close>: the run ends with ZeroDivisionError, a division
  fault, and reports no accuracy.
\<close>

theorem evaluate_empty_batch:
  "evaluate fs model [] = ([], Inl ZeroDivisionError)"
  by (simp add: evaluate_def py_truediv_def)

theorem evaluate_empty_batch_witness:
  "evaluate example_storage (example_model (3/10) [] []) [] = ([], Inl ZeroDivisionError)"
  using evaluate_empty_batch [of example_storage "example_model (3/10) [] []"] by simp

theorem empty_batch_is_division_fault:
  "snd (evaluate example_storage (example_model (9/10) [] []) []) = Inl ZeroDivisionError
   \<and> fst (evaluate example_storage (example_model (9/10) [] []) []) = []"
  by (simp add: evaluate_def py_truediv_def)

end
